theory Spec2Isabelle
  imports Main "HOL-Library.Multiset"
begin

section \<open>The latest-transactions script (get_latest_transactions.py)\<close>

text \<open>
  The script is a straight line of three stages: initialise the Firebase client, issue one
  query against the node \<^verbatim>\<open>transactions\<close>, print the result. The client library and the
  database are not part of the repository; what they answer is a parameter of the model
  (\<open>env\<close> below). Everything the script itself does (the handler for \<^verbatim>\<open>ValueError\<close>, the
  query it builds, the truthiness test, the copy of the values, the sort, the print loop) is
  a definition.
\<close>

subsection \<open>Python values and exceptions\<close>

text \<open>
  The payload of a transaction is a JSON object; its fields are read with \<^verbatim>\<open>dict.get\<close>.
  A field value is \<^verbatim>\<open>None\<close>, an integer or a string. (Floating-point amounts and nested
  objects are outside this value universe.)
\<close>

datatype pyval = PNone | PInt int | PStr string

text \<open>
  An exception is identified by its class. \<open>ValueError\<close> stands for every instance of
  \<^verbatim>\<open>ValueError\<close> (subclasses included, as \<^verbatim>\<open>except ValueError\<close> matches by instance);
  \<open>OtherException n\<close> is an exception of a class \<open>n\<close> that derives from neither
  \<^verbatim>\<open>ValueError\<close> nor \<^verbatim>\<open>TypeError\<close>.
\<close>

datatype exc = ValueError | TypeError | OtherException string

type_synonym transaction = "string \<rightharpoonup> pyval"

text \<open>\<^verbatim>\<open>d.get(k)\<close> and \<^verbatim>\<open>d.get(k, default)\<close>: never raise, a missing key gives the default.\<close>

definition dict_get_default :: "transaction \<Rightarrow> string \<Rightarrow> pyval \<Rightarrow> pyval" where
  "dict_get_default d k dflt = (case d k of None \<Rightarrow> dflt | Some v \<Rightarrow> v)"

definition dict_get :: "transaction \<Rightarrow> string \<Rightarrow> pyval" where
  "dict_get d k = dict_get_default d k PNone"

subsection \<open>Formatting: what an f-string field renders\<close>

definition digit_char :: "nat \<Rightarrow> char" where
  "digit_char d = ''0123456789'' ! (d mod 10)"

fun str_nat :: "nat \<Rightarrow> string" where
  "str_nat n = (if n < 10 then [digit_char n] else str_nat (n div 10) @ [digit_char (n mod 10)])"

declare str_nat.simps [simp del]

text \<open>\<^verbatim>\<open>format(v, '')\<close>, which is \<^verbatim>\<open>str(v)\<close> for these values.\<close>

fun py_str :: "pyval \<Rightarrow> string" where
  "py_str PNone = ''None''"
| "py_str (PInt i) = (if i < 0 then ''-'' @ str_nat (nat (- i)) else str_nat (nat i))"
| "py_str (PStr s) = s"

text \<open>
  Line 41:
  \<^verbatim>\<open>f"- {transaction.get('date')}: {transaction.get('description')} ({transaction.get('amount')} EUR)"\<close>
\<close>

definition format_line :: "transaction \<Rightarrow> string" where
  "format_line transaction =
     ''- '' @ py_str (dict_get transaction ''date'') @ '': '' @
     py_str (dict_get transaction ''description'') @ '' ('' @
     py_str (dict_get transaction ''amount'') @ '' EUR)''"

subsection \<open>Comparison and \<^verbatim>\<open>list.sort\<close>\<close>

text \<open>Strings compare lexicographically by code point.\<close>

fun str_lt :: "string \<Rightarrow> string \<Rightarrow> bool" where
  "str_lt [] [] = False"
| "str_lt [] (y # ys) = True"
| "str_lt (x # xs) [] = False"
| "str_lt (x # xs) (y # ys) =
     (if x = y then str_lt xs ys else (of_char x :: nat) < of_char y)"

text \<open>
  \<^verbatim>\<open>a < b\<close>: defined between two integers and between two strings; every other pair
  (also \<^verbatim>\<open>None < None\<close>) raises \<^verbatim>\<open>TypeError\<close>.
\<close>

fun py_lt :: "pyval \<Rightarrow> pyval \<Rightarrow> exc + bool" where
  "py_lt (PInt a) (PInt b) = Inr (a < b)"
| "py_lt (PStr a) (PStr b) = Inr (str_lt a b)"
| "py_lt _ _ = Inl TypeError"

text \<open>
  \<^verbatim>\<open>list.sort(key=..., reverse=...)\<close> is a stable sort that only ever asks \<^verbatim>\<open><\<close> of two keys
  and lets the exception of a comparison escape. It is modelled by a stable insertion
  sort over \<open>py_lt\<close>: an element goes behind every element whose key is not greater. With
  \<^verbatim>\<open>reverse=True\<close> the list is reversed, sorted, and reversed again, which is how the
  descending order keeps equal keys in their original order.
\<close>

fun insort_lt :: "('a \<Rightarrow> pyval) \<Rightarrow> 'a \<Rightarrow> 'a list \<Rightarrow> exc + 'a list" where
  "insort_lt key x [] = Inr [x]"
| "insort_lt key x (y # ys) =
     (case py_lt (key y) (key x) of
        Inl e \<Rightarrow> Inl e
      | Inr True \<Rightarrow> (case insort_lt key x ys of Inl e \<Rightarrow> Inl e | Inr zs \<Rightarrow> Inr (y # zs))
      | Inr False \<Rightarrow> Inr (x # y # ys))"

fun stable_sort :: "('a \<Rightarrow> pyval) \<Rightarrow> 'a list \<Rightarrow> exc + 'a list" where
  "stable_sort key [] = Inr []"
| "stable_sort key (x # xs) =
     (case stable_sort key xs of Inl e \<Rightarrow> Inl e | Inr ys \<Rightarrow> insort_lt key x ys)"

definition list_sort :: "('a \<Rightarrow> pyval) \<Rightarrow> bool \<Rightarrow> 'a list \<Rightarrow> exc + 'a list" where
  "list_sort key reverse xs =
     (if reverse
      then (case stable_sort key (rev xs) of Inl e \<Rightarrow> Inl e | Inr ys \<Rightarrow> Inr (rev ys))
      else stable_sort key xs)"

text \<open>Line 37: \<^verbatim>\<open>key=lambda x: x.get('timestamp', 0)\<close>.\<close>

definition sort_key_fn :: "transaction \<Rightarrow> pyval" where
  "sort_key_fn x = dict_get_default x ''timestamp'' (PInt 0)"

subsection \<open>The presenter (lines 32 to 43)\<close>

text \<open>
  The query answers \<^verbatim>\<open>None\<close> (nothing at the node) or a dictionary from keys to payloads
  whose order is the order of \<^verbatim>\<open>.values()\<close>: an association list.
\<close>

type_synonym query_result = "(string \<times> transaction) list option"

text \<open>Line 34: \<^verbatim>\<open>list(latest_transactions.values())\<close>, the payloads without their keys.\<close>

definition dict_values :: "(string \<times> transaction) list \<Rightarrow> transaction list" where
  "dict_values kvs = map snd kvs"

text \<open>Standard output is the list of the lines written so far, one per \<^verbatim>\<open>print\<close> call.\<close>

definition print :: "string \<Rightarrow> string list \<Rightarrow> string list" where
  "print s out = out @ [s]"

text \<open>The bytes of standard output: every printed line is followed by a newline.\<close>

definition stdout_bytes :: "string list \<Rightarrow> string" where
  "stdout_bytes out = concat (map (\<lambda>l. l @ [CHR 0x0A]) out)"

text \<open>Lines 40 and 41, the loop over the sorted list.\<close>

fun print_loop :: "transaction list \<Rightarrow> string list \<Rightarrow> string list" where
  "print_loop [] out = out"
| "print_loop (transaction # rest) out = print_loop rest (print (format_line transaction) out)"

text \<open>
  The presenter returns the new standard output and the exception that ended it, if any.
  \<^verbatim>\<open>if latest_transactions:\<close> is false for \<^verbatim>\<open>None\<close> and for the empty dictionary (the
  first two equations, the \<^verbatim>\<open>else\<close> branch) and true for every other dictionary. The only
  operation of the stage that can raise is the sort, and it runs before the header is
  printed.
\<close>

fun presenter :: "query_result \<Rightarrow> string list \<Rightarrow> string list \<times> exc option" where
  "presenter None out = (print ''No transactions found.'' out, None)"
| "presenter (Some []) out = (print ''No transactions found.'' out, None)"
| "presenter (Some (kv # kvs)) out =
     (let transaction_list = dict_values (kv # kvs) in
      case list_sort sort_key_fn True transaction_list of
        Inl e \<Rightarrow> (out, Some e)
      | Inr sorted_list \<Rightarrow>
          (print_loop sorted_list (print ''Last 10 transactions:'' out), None))"

subsection \<open>The whole script\<close>

text \<open>The query built on line 30, step by step.\<close>

record query =
  path :: string
  order_by :: "string option"
  limit_last :: "nat option"

definition reference :: "string \<Rightarrow> query" where
  "reference p = \<lparr>path = p, order_by = None, limit_last = None\<rparr>"

definition order_by_child :: "string \<Rightarrow> query \<Rightarrow> query" where
  "order_by_child c q = q\<lparr>order_by := Some c\<rparr>"

definition limit_to_last :: "nat \<Rightarrow> query \<Rightarrow> query" where
  "limit_to_last n q = q\<lparr>limit_last := Some n\<rparr>"

text \<open>
  What the outside world answers: whether \<^verbatim>\<open>initialize_app\<close> raises, whether
  \<^verbatim>\<open>db.reference\<close> raises, and what \<^verbatim>\<open>get()\<close> returns or raises for a query.
\<close>

record env =
  env_init :: "exc option"
  env_reference :: "string \<Rightarrow> exc option"
  env_get :: "query \<Rightarrow> exc + query_result"

text \<open>The calls the script makes to the library, in order.\<close>

datatype call = InitializeApp string | Reference string | Get query

text \<open>
  How the process ends: it runs off the end of the script, \<^verbatim>\<open>exit()\<close> raises
  \<^verbatim>\<open>SystemExit\<close> with the given code (\<open>None\<close> when called without argument), or an
  exception reaches the top level.
\<close>

datatype ending = Completed | SystemExit "int option" | Uncaught exc

fun exit_status :: "ending \<Rightarrow> int" where
  "exit_status Completed = 0"
| "exit_status (SystemExit None) = 0"
| "exit_status (SystemExit (Some n)) = n"
| "exit_status (Uncaught e) = 1"

record run =
  stdout :: "string list"
  calls :: "call list"
  ending :: ending

definition database_url :: string where
  "database_url = ''https://cashflow-e8354-default-rtdb.europe-west1.firebasedatabase.app/''"

definition guidance1 :: string where
  "guidance1 = ''Error initializing Firebase. Please make sure you have set the GOOGLE_APPLICATION_CREDENTIALS environment variable.''"

definition guidance2 :: string where
  "guidance2 = ''For example: export GOOGLE_APPLICATION_CREDENTIALS='' @ [CHR 0x27] @
     ''/Users/martinsauer/Workspace/cashflow/src/cashflow-e8354-firebase-adminsdk-fbsvc-af14d8ae4b.json'' @ [CHR 0x27]"

definition the_query :: query where
  "the_query = limit_to_last 10 (order_by_child ''timestamp'' (reference ''transactions''))"

definition script :: "env \<Rightarrow> run" where
  "script env =
     (case env_init env of
        Some e \<Rightarrow>
          (if e = ValueError
           then \<lparr>stdout = print guidance2 (print guidance1 []),
                 calls = [InitializeApp database_url],
                 ending = SystemExit None\<rparr>
           else \<lparr>stdout = [], calls = [InitializeApp database_url], ending = Uncaught e\<rparr>)
      | None \<Rightarrow>
          (case env_reference env ''transactions'' of
             Some e \<Rightarrow>
               \<lparr>stdout = [],
                calls = [InitializeApp database_url, Reference ''transactions''],
                ending = Uncaught e\<rparr>
           | None \<Rightarrow>
               (case env_get env the_query of
                  Inl e \<Rightarrow>
                    \<lparr>stdout = [],
                     calls = [InitializeApp database_url, Reference ''transactions'', Get the_query],
                     ending = Uncaught e\<rparr>
                | Inr latest_transactions \<Rightarrow>
                    (case presenter latest_transactions [] of
                       (out, None) \<Rightarrow>
                         \<lparr>stdout = out,
                          calls = [InitializeApp database_url, Reference ''transactions'', Get the_query],
                          ending = Completed\<rparr>
                     | (out, Some e) \<Rightarrow>
                         \<lparr>stdout = out,
                          calls = [InitializeApp database_url, Reference ''transactions'', Get the_query],
                          ending = Uncaught e\<rparr>))))"

subsection \<open>Vocabulary of the properties\<close>

text \<open>
  The data model gives every transaction a numeric \<^verbatim>\<open>timestamp\<close>, which a record may lack.
  \<open>numeric_timestamp\<close> says that the field, when present, is an integer; \<open>ts_int\<close> is the
  timestamp as a number, 0 standing for a missing one.
\<close>

definition numeric_timestamp :: "transaction \<Rightarrow> bool" where
  "numeric_timestamp x =
     (case x ''timestamp'' of None \<Rightarrow> True | Some (PInt i) \<Rightarrow> True | Some _ \<Rightarrow> False)"

definition ts_int :: "transaction \<Rightarrow> int" where
  "ts_int x = (case x ''timestamp'' of Some (PInt i) \<Rightarrow> i | _ \<Rightarrow> 0)"

text \<open>A query result is well formed when the timestamps of all its records are numeric.\<close>

fun well_formed :: "query_result \<Rightarrow> bool" where
  "well_formed None = True"
| "well_formed (Some kvs) = list_all numeric_timestamp (map snd kvs)"

text \<open>A record line is a printed line that starts with the dash of line 41.\<close>

definition record_lines :: "string list \<Rightarrow> string list" where
  "record_lines out = filter (\<lambda>l. take 2 l = ''- '') out"

text \<open>
  The service honours the limit of a query when a dictionary it answers has no more entries
  than \<^verbatim>\<open>limit_to_last\<close> asked for.
\<close>

definition honours_limit :: "(query \<Rightarrow> exc + query_result) \<Rightarrow> query \<Rightarrow> bool" where
  "honours_limit svc q =
     (case svc q of
        Inr (Some kvs) \<Rightarrow> (case limit_last q of Some n \<Rightarrow> length kvs \<le> n | None \<Rightarrow> True)
      | _ \<Rightarrow> True)"

subsection \<open>Example inputs\<close>

definition coffee_no_amount :: transaction where
  "coffee_no_amount =
     [''date'' \<mapsto> PStr ''2024-01-01'', ''description'' \<mapsto> PStr ''Coffee'',
      ''timestamp'' \<mapsto> PInt 100]"

definition rent :: transaction where
  "rent =
     [''date'' \<mapsto> PStr ''2024-01-03'', ''description'' \<mapsto> PStr ''Rent'',
      ''amount'' \<mapsto> PInt (- 950), ''timestamp'' \<mapsto> PInt 300]"

definition salary :: transaction where
  "salary =
     [''date'' \<mapsto> PStr ''2024-01-02'', ''description'' \<mapsto> PStr ''Salary'',
      ''amount'' \<mapsto> PInt 2500, ''timestamp'' \<mapsto> PInt 200]"

text \<open>Two records without any timestamp, and one with none of the displayed fields.\<close>

definition undated_a :: transaction where
  "undated_a = [''description'' \<mapsto> PStr ''A'']"

definition undated_b :: transaction where
  "undated_b = [''description'' \<mapsto> PStr ''B'']"

definition bare :: transaction where
  "bare = [''timestamp'' \<mapsto> PInt 7]"

text \<open>A record whose timestamp is a string, which does not compare with a number.\<close>

definition text_stamped :: transaction where
  "text_stamped = [''timestamp'' \<mapsto> PStr ''yesterday'']"

definition three_records :: "(string \<times> transaction) list" where
  "three_records = [(''k1'', coffee_no_amount), (''k2'', rent), (''k3'', salary)]"

definition tied_records :: "(string \<times> transaction) list" where
  "tied_records = [(''k1'', undated_a), (''k2'', salary), (''k3'', undated_b)]"

text \<open>A database holding \<open>three_records\<close> that answers the last \<open>n\<close> of them.\<close>

definition limiting_service :: "query \<Rightarrow> exc + query_result" where
  "limiting_service q =
     Inr (Some (case limit_last q of
                  None \<Rightarrow> three_records
                | Some n \<Rightarrow> drop (length three_records - n) three_records))"

definition env_ok :: env where
  "env_ok = \<lparr>env_init = None, env_reference = (\<lambda>p. None), env_get = limiting_service\<rparr>"

definition env_value_error :: env where
  "env_value_error = env_ok\<lparr>env_init := Some ValueError\<rparr>"

definition env_unset_variable :: env where
  "env_unset_variable =
     \<lparr>env_init = Some ValueError, env_reference = (\<lambda>p. Some ValueError),
      env_get = (\<lambda>q. Inr None)\<rparr>"

definition env_os_error :: env where
  "env_os_error = env_ok\<lparr>env_init := Some (OtherException ''OSError'')\<rparr>"

definition env_io_error :: env where
  "env_io_error = env_ok\<lparr>env_init := Some (OtherException ''IOError'')\<rparr>"

section \<open>Properties\<close>

subsection \<open>The print loop and the sort\<close>

lemma print_loop_append: "print_loop ts out = out @ map format_line ts"
  by (induction ts arbitrary: out) (simp_all add: print_def)

lemma sort_key_fn_numeric: "numeric_timestamp x \<Longrightarrow> sort_key_fn x = PInt (ts_int x)"
  by (auto simp: numeric_timestamp_def sort_key_fn_def dict_get_default_def ts_int_def
           split: option.splits pyval.splits)

text \<open>On numeric keys the insertion over \<open>py_lt\<close> is the library's \<open>insort_key\<close>.\<close>

lemma insort_lt_numeric:
  "numeric_timestamp x \<Longrightarrow> list_all numeric_timestamp ys \<Longrightarrow>
   insort_lt sort_key_fn x ys = Inr (insort_key ts_int x ys)"
  by (induction ys) (auto simp: sort_key_fn_numeric)

lemma list_all_insort_key: "list_all P (insort_key f x ys) = (P x \<and> list_all P ys)"
  by (induction ys) auto

lemma list_all_sort_key: "list_all P (sort_key f xs) = list_all P xs"
  by (induction xs) (auto simp: list_all_insort_key)

lemma stable_sort_numeric:
  "list_all numeric_timestamp xs \<Longrightarrow> stable_sort sort_key_fn xs = Inr (sort_key ts_int xs)"
  by (induction xs) (auto simp: insort_lt_numeric list_all_sort_key)

lemma list_sort_numeric:
  "list_all numeric_timestamp xs \<Longrightarrow>
   list_sort sort_key_fn True xs = Inr (rev (sort_key ts_int (rev xs)))"
  by (simp add: list_sort_def stable_sort_numeric)

lemma presenter_numeric:
  assumes "list_all numeric_timestamp (map snd kvs)" and "kvs \<noteq> []"
  shows "presenter (Some kvs) out =
           (out @ ''Last 10 transactions:'' #
              map format_line (rev (sort_key ts_int (rev (map snd kvs)))), None)"
proof -
  from assms(2) obtain kv rest where kvs: "kvs = kv # rest"
    by (cases kvs) auto
  have "list_sort sort_key_fn True (dict_values (kv # rest)) =
          Inr (rev (sort_key ts_int (rev (map snd (kv # rest)))))"
    using assms(1) unfolding kvs dict_values_def by (rule list_sort_numeric)
  then show ?thesis
    unfolding kvs by (simp add: print_loop_append print_def)
qed

lemma descending_rev_sort:
  "sorted_wrt (\<lambda>a b. ts_int b \<le> ts_int a) (rev (sort_key ts_int (rev xs)))"
proof -
  have "sorted (map ts_int (sort_key ts_int (rev xs)))"
    by (rule sorted_sort_key)
  then have "sorted_wrt (\<lambda>a b. ts_int a \<le> ts_int b) (sort_key ts_int (rev xs))"
    by (simp add: sorted_map)
  then show ?thesis
    by (simp add: sorted_wrt_rev)
qed

lemma stable_rev_sort:
  "filter (\<lambda>t. ts_int t = k) (rev (sort_key ts_int (rev xs))) = filter (\<lambda>t. ts_int t = k) xs"
proof -
  have "filter (\<lambda>t. ts_int t = k) (rev (sort_key ts_int (rev xs))) =
        rev (filter (\<lambda>t. ts_int t = k) (sort_key ts_int (rev xs)))"
    by (simp add: rev_filter)
  also have "\<dots> = rev (filter (\<lambda>t. ts_int t = k) (rev xs))"
    by (simp only: sort_key_stable)
  also have "\<dots> = filter (\<lambda>t. ts_int t = k) xs"
    by (simp add: rev_filter)
  finally show ?thesis .
qed

text \<open>Whatever the keys are, a sort that returns has kept the number of elements.\<close>

lemma insort_lt_length: "insort_lt key x ys = Inr zs \<Longrightarrow> length zs = Suc (length ys)"
  by (induction ys arbitrary: zs) (auto split: sum.splits bool.splits)

lemma stable_sort_length: "stable_sort key xs = Inr ys \<Longrightarrow> length ys = length xs"
  by (induction xs arbitrary: ys) (auto split: sum.splits dest: insort_lt_length)

lemma list_sort_length: "list_sort key r xs = Inr ys \<Longrightarrow> length ys = length xs"
  by (auto simp: list_sort_def split: if_splits sum.splits dest: stable_sort_length)

text \<open>
  Outside the data model the sort can fail: a string timestamp beside a numeric one makes
  the comparison raise, and the presenter ends with \<^verbatim>\<open>TypeError\<close> before the header is
  printed. A single record is never compared, whatever its timestamp.
\<close>

lemma incomparable_timestamps_raise:
  "\<not> well_formed (Some [(''k1'', text_stamped), (''k2'', bare)]) \<and>
   presenter (Some [(''k1'', text_stamped), (''k2'', bare)]) out = (out, Some TypeError) \<and>
   presenter (Some [(''k1'', text_stamped)]) out =
     (out @ [''Last 10 transactions:'', ''- None: None (None EUR)''], None)"
  by (simp add: numeric_timestamp_def text_stamped_def bare_def dict_values_def
        list_sort_def sort_key_fn_def dict_get_default_def dict_get_def print_def
        format_line_def)

text \<open>What the presenter appends does not depend on what was printed before.\<close>

lemma presenter_appends:
  "\<exists>emitted e. \<forall>out. presenter R out = (out @ emitted, e)"
proof (cases R)
  case None
  then show ?thesis by (simp add: print_def)
next
  case (Some kvs)
  show ?thesis
  proof (cases kvs)
    case Nil
    with Some show ?thesis by (simp add: print_def)
  next
    case (Cons kv rest)
    show ?thesis
    proof (cases "list_sort sort_key_fn True (dict_values (kv # rest))")
      case (Inl e)
      with Some Cons have "\<forall>out. presenter R out = (out @ [], Some e)" by simp
      then show ?thesis by blast
    next
      case (Inr ys)
      with Some Cons have
        "\<forall>out. presenter R out = (out @ (''Last 10 transactions:'' # map format_line ys), None)"
        by (simp add: print_loop_append print_def)
      then show ?thesis by blast
    qed
  qed
qed

lemma stdout_bytes_append: "stdout_bytes (xs @ ys) = stdout_bytes xs @ stdout_bytes ys"
  by (simp add: stdout_bytes_def)

subsection \<open>The script around the presenter\<close>

lemma script_init_failure:
  "env_init env = Some e \<Longrightarrow>
   script env =
     (if e = ValueError
      then \<lparr>stdout = [guidance1, guidance2], calls = [InitializeApp database_url],
            ending = SystemExit None\<rparr>
      else \<lparr>stdout = [], calls = [InitializeApp database_url], ending = Uncaught e\<rparr>)"
  by (simp add: script_def print_def)

lemma the_query_eq:
  "the_query = \<lparr>path = ''transactions'', order_by = Some ''timestamp'', limit_last = Some 10\<rparr>"
  by (simp add: the_query_def limit_to_last_def order_by_child_def reference_def)

lemma script_calls_success:
  "env_init env = None \<Longrightarrow> env_reference env ''transactions'' = None \<Longrightarrow>
   calls (script env) =
     [InitializeApp database_url, Reference ''transactions'', Get the_query]"
  by (simp add: script_def split: sum.splits prod.splits option.splits)

lemma script_stdout_success:
  "env_init env = None \<Longrightarrow> env_reference env ''transactions'' = None \<Longrightarrow>
   env_get env the_query = Inr R \<Longrightarrow> stdout (script env) = fst (presenter R [])"
  by (simp add: script_def split: prod.splits option.splits)

subsection \<open>Shape of the output\<close>

text \<open>The three example records and what line 37 and line 41 make of them.\<close>

lemma three_records_well_formed: "well_formed (Some three_records)"
  by (simp add: three_records_def numeric_timestamp_def coffee_no_amount_def rent_def
        salary_def)

lemma three_records_keys:
  "sort_key_fn coffee_no_amount = PInt 100" "sort_key_fn rent = PInt 300"
  "sort_key_fn salary = PInt 200"
  by (simp_all add: sort_key_fn_def dict_get_default_def coffee_no_amount_def rent_def
        salary_def)

lemma three_records_sorted:
  "list_sort sort_key_fn True (dict_values three_records) =
     Inr [rent, salary, coffee_no_amount]"
  by (simp add: three_records_def dict_values_def list_sort_def three_records_keys)

text \<open>
  C1. For a well-formed query result: when it is absent or empty the presenter prints
  exactly the one line \<^verbatim>\<open>No transactions found.\<close>; otherwise it ends normally after
  printing the header \<^verbatim>\<open>Last 10 transactions:\<close> and then, for each record of the list it
  sorted, exactly one line \<^verbatim>\<open>- <date>: <description> (<amount> EUR)\<close>, a field being
  rendered by \<^verbatim>\<open>str\<close> and a missing field as \<^verbatim>\<open>None\<close>; there are as many record lines as
  the result has records, and the sorted list is a rearrangement of them. Run by the
  script, which starts the presenter on an empty output, this is the whole output of the
  program.
\<close>

theorem presenter_output_shape:
  assumes "well_formed R"
  shows "(R = None \<or> R = Some [] \<longrightarrow>
            presenter R out = (out @ [''No transactions found.''], None)) \<and>
         (\<forall>kvs. R = Some kvs \<and> kvs \<noteq> [] \<longrightarrow>
            (\<exists>ts. list_sort sort_key_fn True (dict_values kvs) = Inr ts \<and>
                   presenter R out =
                     (out @ ''Last 10 transactions:'' #
                        map (\<lambda>t. ''- '' @
                               (case t ''date'' of None \<Rightarrow> ''None'' | Some v \<Rightarrow> py_str v) @
                               '': '' @
                               (case t ''description'' of None \<Rightarrow> ''None''
                                | Some v \<Rightarrow> py_str v) @
                               '' ('' @
                               (case t ''amount'' of None \<Rightarrow> ''None'' | Some v \<Rightarrow> py_str v) @
                               '' EUR)'') ts,
                      None) \<and>
                   length ts = length kvs \<and> mset ts = mset (map snd kvs))) \<and>
         (env_init env = None \<and> env_reference env ''transactions'' = None \<and>
          env_get env the_query = Inr R \<longrightarrow> stdout (script env) = fst (presenter R []))"
proof (intro conjI)
  show "R = None \<or> R = Some [] \<longrightarrow>
          presenter R out = (out @ [''No transactions found.''], None)"
    by (auto simp: print_def)
next
  let ?fmt = "\<lambda>t. ''- '' @
                (case t ''date'' of None \<Rightarrow> ''None'' | Some v \<Rightarrow> py_str v) @ '': '' @
                (case t ''description'' of None \<Rightarrow> ''None'' | Some v \<Rightarrow> py_str v) @
                '' ('' @
                (case t ''amount'' of None \<Rightarrow> ''None'' | Some v \<Rightarrow> py_str v) @
                '' EUR)''"
  have fmt: "format_line = ?fmt"
    by (rule ext)
       (simp add: format_line_def dict_get_def dict_get_default_def split: option.splits)
  show "\<forall>kvs. R = Some kvs \<and> kvs \<noteq> [] \<longrightarrow>
          (\<exists>ts. list_sort sort_key_fn True (dict_values kvs) = Inr ts \<and>
                 presenter R out =
                   (out @ ''Last 10 transactions:'' # map ?fmt ts, None) \<and>
                 length ts = length kvs \<and> mset ts = mset (map snd kvs))"
  proof (intro allI impI)
    fix kvs
    assume R: "R = Some kvs \<and> kvs \<noteq> []"
    with assms have wf: "list_all numeric_timestamp (map snd kvs)" by simp
    let ?ts = "rev (sort_key ts_int (rev (map snd kvs)))"
    have "list_sort sort_key_fn True (dict_values kvs) = Inr ?ts"
      using list_sort_numeric [OF wf] by (simp add: dict_values_def)
    moreover have "presenter R out = (out @ ''Last 10 transactions:'' # map ?fmt ?ts, None)"
      using presenter_numeric [OF wf] R by (simp add: fmt)
    moreover have "length ?ts = length kvs" by simp
    moreover have "mset ?ts = mset (map snd kvs)" by simp
    ultimately show "\<exists>ts. list_sort sort_key_fn True (dict_values kvs) = Inr ts \<and>
                       presenter R out =
                         (out @ ''Last 10 transactions:'' # map ?fmt ts, None) \<and>
                       length ts = length kvs \<and> mset ts = mset (map snd kvs)"
      by blast
  qed
next
  show "env_init env = None \<and> env_reference env ''transactions'' = None \<and>
        env_get env the_query = Inr R \<longrightarrow> stdout (script env) = fst (presenter R [])"
    by (simp add: script_stdout_success)
qed

text \<open>
  Three records, one of them without amount: the header and three lines, character for
  character; no result and the empty result: the one line.
\<close>

theorem presenter_output_shape_witness:
  "well_formed (Some three_records) \<and> well_formed None \<and> well_formed (Some []) \<and>
   length three_records = 3 \<and>
   presenter (Some three_records) [] =
     ([''Last 10 transactions:'', ''- 2024-01-03: Rent (-950 EUR)'',
       ''- 2024-01-02: Salary (2500 EUR)'', ''- 2024-01-01: Coffee (None EUR)''], None) \<and>
   presenter None [] = ([''No transactions found.''], None) \<and>
   presenter (Some []) [] = ([''No transactions found.''], None)"
proof -
  have ne: "three_records \<noteq> []" and len: "length three_records = 3"
    by (simp_all add: three_records_def)
  have wf0: "well_formed None" and wf1: "well_formed (Some [])" by simp_all
  from presenter_output_shape [OF three_records_well_formed, of "[]"] ne
  obtain ts where
    ts: "list_sort sort_key_fn True (dict_values three_records) = Inr ts" and
    pr: "presenter (Some three_records) [] =
           ([] @ ''Last 10 transactions:'' #
              map (\<lambda>t. ''- '' @
                     (case t ''date'' of None \<Rightarrow> ''None'' | Some v \<Rightarrow> py_str v) @ '': '' @
                     (case t ''description'' of None \<Rightarrow> ''None'' | Some v \<Rightarrow> py_str v) @
                     '' ('' @
                     (case t ''amount'' of None \<Rightarrow> ''None'' | Some v \<Rightarrow> py_str v) @
                     '' EUR)'') ts,
            None)"
    by blast
  from ts have "ts = [rent, salary, coffee_no_amount]"
    by (simp add: three_records_sorted)
  with pr have full: "presenter (Some three_records) [] =
     ([''Last 10 transactions:'', ''- 2024-01-03: Rent (-950 EUR)'',
       ''- 2024-01-02: Salary (2500 EUR)'', ''- 2024-01-01: Coffee (None EUR)''], None)"
    by (simp add: rent_def salary_def coffee_no_amount_def str_nat.simps digit_char_def)
  from presenter_output_shape [OF wf0, of "[]"]
  have none: "presenter None [] = ([''No transactions found.''], None)" by simp
  from presenter_output_shape [OF wf1, of "[]"]
  have empty: "presenter (Some []) [] = ([''No transactions found.''], None)" by simp
  from three_records_well_formed wf0 wf1 len full none empty show ?thesis by blast
qed

subsection \<open>Order of the printed records\<close>

text \<open>
  C2. For a non-empty, well-formed query result the sort of line 37 returns a list, the
  record lines printed after the header are the lines of that list in its order, and the
  list is newest first: of any two of its records, the earlier one has a timestamp greater
  than or equal to that of the later one, a missing timestamp counting as 0. The list is a
  rearrangement of the records of the result.
\<close>

theorem printed_newest_first:
  assumes "well_formed (Some kvs)" and "kvs \<noteq> []"
  shows "\<exists>ts. list_sort sort_key_fn True (dict_values kvs) = Inr ts \<and>
              presenter (Some kvs) out =
                (out @ ''Last 10 transactions:'' # map format_line ts, None) \<and>
              sorted_wrt (\<lambda>a b. ts_int b \<le> ts_int a) ts \<and>
              mset ts = mset (map snd kvs)"
proof -
  let ?ts = "rev (sort_key ts_int (rev (map snd kvs)))"
  from assms(1) have wf: "list_all numeric_timestamp (map snd kvs)" by simp
  have "list_sort sort_key_fn True (dict_values kvs) = Inr ?ts"
    using list_sort_numeric [OF wf] by (simp add: dict_values_def)
  moreover have "presenter (Some kvs) out =
          (out @ ''Last 10 transactions:'' # map format_line ?ts, None)"
    by (rule presenter_numeric [OF wf assms(2)])
  moreover have "sorted_wrt (\<lambda>a b. ts_int b \<le> ts_int a) ?ts"
    by (rule descending_rev_sort)
  moreover have "mset ?ts = mset (map snd kvs)" by simp
  ultimately show ?thesis by blast
qed

text \<open>Timestamps 100, 300, 200 come out as 300, 200, 100.\<close>

lemma three_records_lines:
  "format_line rent = ''- 2024-01-03: Rent (-950 EUR)''"
  "format_line salary = ''- 2024-01-02: Salary (2500 EUR)''"
  "format_line coffee_no_amount = ''- 2024-01-01: Coffee (None EUR)''"
  by (simp_all add: format_line_def dict_get_def dict_get_default_def rent_def salary_def
        coffee_no_amount_def str_nat.simps digit_char_def)

lemma three_records_output:
  "presenter (Some three_records) [] =
     ([''Last 10 transactions:'', ''- 2024-01-03: Rent (-950 EUR)'',
       ''- 2024-01-02: Salary (2500 EUR)'', ''- 2024-01-01: Coffee (None EUR)''], None)"
  by (simp add: three_records_def dict_values_def list_sort_def sort_key_fn_def
        dict_get_default_def dict_get_def coffee_no_amount_def rent_def salary_def
        print_def format_line_def str_nat.simps digit_char_def)

theorem printed_newest_first_witness:
  "well_formed (Some three_records) \<and> three_records \<noteq> [] \<and>
   map ts_int (dict_values three_records) = [100, 300, 200] \<and>
   list_sort sort_key_fn True (dict_values three_records) =
     Inr [rent, salary, coffee_no_amount] \<and>
   map ts_int [rent, salary, coffee_no_amount] = [300, 200, 100] \<and>
   sorted_wrt (\<lambda>a b. ts_int b \<le> ts_int a) [rent, salary, coffee_no_amount] \<and>
   presenter (Some three_records) [] =
     ([''Last 10 transactions:'', ''- 2024-01-03: Rent (-950 EUR)'',
       ''- 2024-01-02: Salary (2500 EUR)'', ''- 2024-01-01: Coffee (None EUR)''], None)"
proof -
  have ne: "three_records \<noteq> []" by (simp add: three_records_def)
  have before: "map ts_int (dict_values three_records) = [100, 300, 200]"
    by (simp add: three_records_def dict_values_def ts_int_def coffee_no_amount_def
          rent_def salary_def)
  have after: "map ts_int [rent, salary, coffee_no_amount] = [300, 200, 100]"
    by (simp add: ts_int_def coffee_no_amount_def rent_def salary_def)
  from printed_newest_first [OF three_records_well_formed ne, of "[]"]
  obtain ts where
    ts: "list_sort sort_key_fn True (dict_values three_records) = Inr ts" and
    pr: "presenter (Some three_records) [] =
           ([] @ ''Last 10 transactions:'' # map format_line ts, None)" and
    desc: "sorted_wrt (\<lambda>a b. ts_int b \<le> ts_int a) ts"
    by blast
  from ts have eq: "ts = [rent, salary, coffee_no_amount]"
    by (simp add: three_records_sorted)
  from pr have out: "presenter (Some three_records) [] =
     ([''Last 10 transactions:'', ''- 2024-01-03: Rent (-950 EUR)'',
       ''- 2024-01-02: Salary (2500 EUR)'', ''- 2024-01-01: Coffee (None EUR)''], None)"
    unfolding eq by (simp add: three_records_lines)
  from desc have "sorted_wrt (\<lambda>a b. ts_int b \<le> ts_int a) [rent, salary, coffee_no_amount]"
    unfolding eq .
  with three_records_well_formed ne before three_records_sorted after out
  show ?thesis by blast
qed

text \<open>
  C9. The descending sort is stable: for a non-empty, well-formed query result and any
  timestamp value \<open>k\<close> (0 for a missing timestamp), the printed records with timestamp \<open>k\<close>
  are the records with timestamp \<open>k\<close> of the returned dictionary, in the order of its
  values.
\<close>

theorem equal_timestamps_keep_order:
  assumes "well_formed (Some kvs)" and "kvs \<noteq> []"
  shows "\<exists>ts. presenter (Some kvs) out =
                (out @ ''Last 10 transactions:'' # map format_line ts, None) \<and>
              (\<forall>k. filter (\<lambda>t. ts_int t = k) ts =
                     filter (\<lambda>t. ts_int t = k) (dict_values kvs))"
proof -
  let ?ts = "rev (sort_key ts_int (rev (map snd kvs)))"
  from assms(1) have wf: "list_all numeric_timestamp (map snd kvs)" by simp
  have "presenter (Some kvs) out =
          (out @ ''Last 10 transactions:'' # map format_line ?ts, None)"
    by (rule presenter_numeric [OF wf assms(2)])
  moreover have "\<forall>k. filter (\<lambda>t. ts_int t = k) ?ts =
                     filter (\<lambda>t. ts_int t = k) (dict_values kvs)"
    by (simp add: stable_rev_sort dict_values_def)
  ultimately show ?thesis by blast
qed

text \<open>
  Two records without timestamp around a dated one: the dated one moves to the front, the
  other two stay in the order \<open>A\<close>, \<open>B\<close>.
\<close>

lemma tied_records_well_formed: "well_formed (Some tied_records)"
  by (simp add: tied_records_def numeric_timestamp_def undated_a_def undated_b_def salary_def)

lemma tied_records_output:
  "presenter (Some tied_records) [] =
     ([''Last 10 transactions:'', ''- 2024-01-02: Salary (2500 EUR)'',
       ''- None: A (None EUR)'', ''- None: B (None EUR)''], None)"
  by (simp add: tied_records_def dict_values_def list_sort_def sort_key_fn_def
        dict_get_default_def dict_get_def undated_a_def undated_b_def salary_def
        print_def format_line_def str_nat.simps digit_char_def)

theorem equal_timestamps_keep_order_witness:
  "well_formed (Some tied_records) \<and> tied_records \<noteq> [] \<and>
   (\<exists>ts. presenter (Some tied_records) [] =
            ([] @ ''Last 10 transactions:'' # map format_line ts, None) \<and>
          (\<forall>k. filter (\<lambda>t. ts_int t = k) ts =
                 filter (\<lambda>t. ts_int t = k) (dict_values tied_records))) \<and>
   map ts_int (dict_values tied_records) = [0, 200, 0]"
proof -
  have ne: "tied_records \<noteq> []" by (simp add: tied_records_def)
  have keys: "map ts_int (dict_values tied_records) = [0, 200, 0]"
    by (simp add: tied_records_def dict_values_def ts_int_def undated_a_def undated_b_def
          salary_def)
  from equal_timestamps_keep_order [OF tied_records_well_formed ne, of "[]"]
  show ?thesis using tied_records_well_formed ne keys by blast
qed

subsection \<open>Missing fields\<close>

text \<open>
  C6. Reading a field never fails: a missing field reads as \<^verbatim>\<open>None\<close>. For a non-empty,
  well-formed query result, whatever fields among \<^verbatim>\<open>date\<close>, \<^verbatim>\<open>description\<close> and
  \<^verbatim>\<open>amount\<close> its records lack, the presenter ends normally and prints after the header
  exactly one line for each record: the printed records are a rearrangement of the records
  of the result.
\<close>

theorem missing_fields_one_line_each:
  assumes "well_formed (Some kvs)" and "kvs \<noteq> []"
  shows "(\<forall>t f. t f = None \<longrightarrow> dict_get t f = PNone) \<and>
         (\<exists>ts. presenter (Some kvs) out =
                  (out @ ''Last 10 transactions:'' # map format_line ts, None) \<and>
                mset ts = mset (dict_values kvs) \<and>
                length (map format_line ts) = length kvs)"
proof -
  let ?ts = "rev (sort_key ts_int (rev (map snd kvs)))"
  from assms(1) have wf: "list_all numeric_timestamp (map snd kvs)" by simp
  have "presenter (Some kvs) out =
          (out @ ''Last 10 transactions:'' # map format_line ?ts, None)"
    by (rule presenter_numeric [OF wf assms(2)])
  moreover have "mset ?ts = mset (dict_values kvs)"
    by (simp add: dict_values_def)
  moreover have "length (map format_line ?ts) = length kvs" by simp
  moreover have "\<forall>t f. t f = None \<longrightarrow> dict_get t f = PNone"
    by (simp add: dict_get_def dict_get_default_def)
  ultimately show ?thesis by blast
qed

text \<open>A record with no \<^verbatim>\<open>date\<close>, no \<^verbatim>\<open>description\<close> and no \<^verbatim>\<open>amount\<close>.\<close>

lemma bare_line: "format_line bare = ''- None: None (None EUR)''"
  by (simp add: format_line_def dict_get_def dict_get_default_def bare_def)

theorem missing_fields_one_line_each_witness:
  "well_formed (Some [(''k1'', bare)]) \<and> [(''k1'', bare)] \<noteq> [] \<and>
   bare ''date'' = None \<and> bare ''description'' = None \<and> bare ''amount'' = None \<and>
   dict_get bare ''amount'' = PNone \<and>
   (\<exists>ts. presenter (Some [(''k1'', bare)]) [] =
            ([] @ ''Last 10 transactions:'' # map format_line ts, None) \<and>
          mset ts = mset (dict_values [(''k1'', bare)]) \<and>
          length (map format_line ts) = length [(''k1'', bare)])"
proof -
  have wf: "well_formed (Some [(''k1'', bare)])"
    by (simp add: numeric_timestamp_def bare_def)
  have ne: "[(''k1'', bare)] \<noteq> []" by simp
  have missing: "bare ''date'' = None \<and> bare ''description'' = None \<and> bare ''amount'' = None"
    by (simp add: bare_def)
  from missing_fields_one_line_each [OF wf ne, of "[]"]
  show ?thesis using wf missing by blast
qed

text \<open>
  C7, as the code has it. A record without \<^verbatim>\<open>amount\<close> whose \<^verbatim>\<open>date\<close> and
  \<^verbatim>\<open>description\<close> are present prints the word \<^verbatim>\<open>None\<close> in the amount slot, and a result
  holding just that record is presented normally: header, then that line.
\<close>

theorem missing_amount_prints_None:
  assumes "t ''amount'' = None" and "t ''date'' = Some d" and "t ''description'' = Some s"
  shows "format_line t = ''- '' @ py_str d @ '': '' @ py_str s @ '' (None EUR)'' \<and>
         presenter (Some [(k, t)]) out =
           (out @ [''Last 10 transactions:'', format_line t], None)"
  using assms
  by (simp add: format_line_def dict_get_def dict_get_default_def dict_values_def
        list_sort_def print_def)

theorem missing_amount_prints_None_witness:
  "coffee_no_amount ''amount'' = None \<and>
   coffee_no_amount ''date'' = Some (PStr ''2024-01-01'') \<and>
   coffee_no_amount ''description'' = Some (PStr ''Coffee'') \<and>
   format_line coffee_no_amount = ''- 2024-01-01: Coffee (None EUR)'' \<and>
   presenter (Some [(''k1'', coffee_no_amount)]) [] =
     ([''Last 10 transactions:'', ''- 2024-01-01: Coffee (None EUR)''], None)"
proof -
  have a: "coffee_no_amount ''amount'' = None"
    and d: "coffee_no_amount ''date'' = Some (PStr ''2024-01-01'')"
    and s: "coffee_no_amount ''description'' = Some (PStr ''Coffee'')"
    by (simp_all add: coffee_no_amount_def)
  from missing_amount_prints_None [OF a d s, of "''k1''" "[]"]
  show ?thesis using a d s by simp
qed

text \<open>The line the claim expects, with an empty amount slot, is not the line printed.\<close>

theorem missing_amount_counterexample:
  "coffee_no_amount ''amount'' = None \<and>
   format_line coffee_no_amount = ''- 2024-01-01: Coffee (None EUR)'' \<and>
   format_line coffee_no_amount \<noteq> ''- 2024-01-01: Coffee ( EUR)''"
  by (simp add: format_line_def dict_get_def dict_get_default_def coffee_no_amount_def)

subsection \<open>Determinism of the presentation\<close>

text \<open>
  C8. For a fixed query result there is one sequence of lines and one outcome such that
  every run of the presenter, whatever was on standard output before, appends exactly
  these lines and ends with this outcome; the bytes it adds to standard output are the
  same in every run.
\<close>

theorem presenter_deterministic:
  "\<exists>emitted e. \<forall>out. presenter R out = (out @ emitted, e) \<and>
     stdout_bytes (fst (presenter R out)) = stdout_bytes out @ stdout_bytes emitted"
proof -
  from presenter_appends [of R] obtain emitted e
    where run: "\<forall>out. presenter R out = (out @ emitted, e)" by blast
  then have "\<forall>out. stdout_bytes (fst (presenter R out)) =
                    stdout_bytes out @ stdout_bytes emitted"
    by (simp add: stdout_bytes_append)
  with run show ?thesis by blast
qed

subsection \<open>Failure of the initialisation\<close>

text \<open>
  C3, as the code has it. Whenever \<^verbatim>\<open>initialize_app\<close> raises, whatever the exception, the
  only call the script has made is that one: no reference is obtained and no query is
  executed. When the exception is a \<^verbatim>\<open>ValueError\<close>, the script prints exactly the two
  guidance lines, the first naming the variable \<^verbatim>\<open>GOOGLE_APPLICATION_CREDENTIALS\<close> and the
  second giving an example \<^verbatim>\<open>export\<close> of it, and leaves through \<^verbatim>\<open>exit()\<close>.
\<close>

theorem init_failure_never_queries:
  assumes "env_init env = Some e"
  shows "calls (script env) = [InitializeApp database_url] \<and>
         (e = ValueError \<longrightarrow>
            stdout (script env) = [guidance1, guidance2] \<and>
            ending (script env) = SystemExit None) \<and>
         (\<exists>p s. guidance1 = p @ ''GOOGLE_APPLICATION_CREDENTIALS'' @ s) \<and>
         (\<exists>s. guidance2 = ''For example: export GOOGLE_APPLICATION_CREDENTIALS='' @ s)"
proof -
  have "guidance1 =
          ''Error initializing Firebase. Please make sure you have set the '' @
          ''GOOGLE_APPLICATION_CREDENTIALS'' @ '' environment variable.''"
    by (simp add: guidance1_def)
  then have "\<exists>p s. guidance1 = p @ ''GOOGLE_APPLICATION_CREDENTIALS'' @ s" by blast
  moreover have "\<exists>s. guidance2 = ''For example: export GOOGLE_APPLICATION_CREDENTIALS='' @ s"
    unfolding guidance2_def by blast
  moreover have "calls (script env) = [InitializeApp database_url]"
    by (simp add: script_init_failure [OF assms])
  moreover have "e = ValueError \<longrightarrow>
                   stdout (script env) = [guidance1, guidance2] \<and>
                   ending (script env) = SystemExit None"
    by (simp add: script_init_failure [OF assms])
  ultimately show ?thesis by blast
qed

theorem init_failure_never_queries_witness:
  "env_init env_value_error = Some ValueError \<and>
   calls (script env_value_error) = [InitializeApp database_url] \<and>
   stdout (script env_value_error) = [guidance1, guidance2] \<and>
   ending (script env_value_error) = SystemExit None"
proof -
  have h: "env_init env_value_error = Some ValueError"
    by (simp add: env_value_error_def)
  from init_failure_never_queries [OF h] show ?thesis using h by simp
qed

text \<open>
  An initialisation that fails with an exception that is not a \<^verbatim>\<open>ValueError\<close>: nothing
  is printed.
\<close>

theorem init_failure_guidance_counterexample:
  "env_init env_os_error = Some (OtherException ''OSError'') \<and>
   stdout (script env_os_error) = [] \<and>
   stdout (script env_os_error) \<noteq> [guidance1, guidance2]"
  by (simp add: env_os_error_def script_def)

text \<open>
  C4, as the code has it. On an initialisation failure raised as \<^verbatim>\<open>ValueError\<close> the script
  prints the two guidance lines and terminates at once through \<^verbatim>\<open>exit()\<close> called without
  argument, so with exit status 0; \<^verbatim>\<open>initialize_app\<close> was called once and nothing else
  was.
\<close>

theorem handled_failure_exits_with_zero:
  assumes "env_init env = Some ValueError"
  shows "stdout (script env) = [guidance1, guidance2] \<and>
         ending (script env) = SystemExit None \<and>
         exit_status (ending (script env)) = 0 \<and>
         calls (script env) = [InitializeApp database_url]"
  by (simp add: script_init_failure [OF assms])

theorem handled_failure_exits_with_zero_witness:
  "env_init env_unset_variable = Some ValueError \<and>
   stdout (script env_unset_variable) = [guidance1, guidance2] \<and>
   ending (script env_unset_variable) = SystemExit None \<and>
   exit_status (ending (script env_unset_variable)) = 0 \<and>
   calls (script env_unset_variable) = [InitializeApp database_url]"
proof -
  have h: "env_init env_unset_variable = Some ValueError"
    by (simp add: env_unset_variable_def)
  from handled_failure_exits_with_zero [OF h] show ?thesis using h by simp
qed

text \<open>The exit status after the handled failure is zero, not non-zero.\<close>

theorem handled_failure_status_counterexample:
  "env_init env_value_error = Some ValueError \<and>
   \<not> exit_status (ending (script env_value_error)) \<noteq> 0"
  by (simp add: env_value_error_def script_def)

text \<open>
  C10. Of the failures of \<^verbatim>\<open>initialize_app\<close> only a \<^verbatim>\<open>ValueError\<close> is handled with the two
  guidance lines and the early exit. Any other exception prints nothing and reaches the
  top level unhandled, the process ending with that exception.
\<close>

theorem only_value_error_is_handled:
  assumes "env_init env = Some e"
  shows "(e = ValueError \<longrightarrow>
            stdout (script env) = [guidance1, guidance2] \<and>
            ending (script env) = SystemExit None) \<and>
         (e \<noteq> ValueError \<longrightarrow>
            stdout (script env) = [] \<and> ending (script env) = Uncaught e)"
  by (simp add: script_init_failure [OF assms])

theorem only_value_error_is_handled_witness:
  "env_init env_io_error = Some (OtherException ''IOError'') \<and>
   OtherException ''IOError'' \<noteq> ValueError \<and>
   stdout (script env_io_error) = [] \<and>
   ending (script env_io_error) = Uncaught (OtherException ''IOError'')"
proof -
  have h: "env_init env_io_error = Some (OtherException ''IOError'')"
    by (simp add: env_io_error_def)
  from only_value_error_is_handled [OF h] show ?thesis using h by simp
qed

subsection \<open>The query\<close>

text \<open>The presenter prints no more record lines than the result has entries.\<close>

lemma record_lines_presenter:
  "length (record_lines (fst (presenter R []))) \<le>
     (case R of None \<Rightarrow> 0 | Some kvs \<Rightarrow> length kvs)"
proof (cases R)
  case None
  then show ?thesis by (simp add: record_lines_def print_def)
next
  case (Some kvs)
  show ?thesis
  proof (cases kvs)
    case Nil
    with Some show ?thesis by (simp add: record_lines_def print_def)
  next
    case (Cons kv rest)
    show ?thesis
    proof (cases "list_sort sort_key_fn True (dict_values (kv # rest))")
      case (Inl e)
      with Some Cons show ?thesis by (simp add: record_lines_def)
    next
      case (Inr ys)
      then have len: "length ys = length (kv # rest)"
        by (simp add: list_sort_length dict_values_def)
      have "length (filter (\<lambda>l. take 2 l = ''- '') (map format_line ys)) \<le> length ys"
        by (metis length_filter_le length_map)
      with Some Cons Inr len show ?thesis
        by (simp add: record_lines_def print_loop_append print_def)
    qed
  qed
qed

lemma record_lines_guidance: "record_lines [guidance1, guidance2] = []"
  by (simp add: record_lines_def guidance1_def guidance2_def)

lemma record_lines_script:
  assumes "honours_limit (env_get env) the_query"
  shows "length (record_lines (stdout (script env))) \<le> 10"
proof (cases "env_init env")
  case (Some e)
  then show ?thesis
    by (simp add: script_init_failure record_lines_guidance) (simp add: record_lines_def)
next
  case None
  note init = this
  show ?thesis
  proof (cases "env_reference env ''transactions''")
    case (Some e)
    with init show ?thesis by (simp add: script_def record_lines_def)
  next
    case None
    note ref = this
    show ?thesis
    proof (cases "env_get env the_query")
      case (Inl e)
      with init ref show ?thesis by (simp add: script_def record_lines_def)
    next
      case (Inr R)
      have bound: "(case R of None \<Rightarrow> 0 | Some kvs \<Rightarrow> length kvs) \<le> 10"
        using assms Inr by (simp add: honours_limit_def the_query_eq split: option.splits)
      have "stdout (script env) = fst (presenter R [])"
        by (rule script_stdout_success [OF init ref Inr])
      with record_lines_presenter [of R] bound show ?thesis by simp
    qed
  qed
qed

text \<open>
  C5. When the initialisation and \<^verbatim>\<open>db.reference\<close> succeed, the script makes exactly one
  query: at the path \<^verbatim>\<open>transactions\<close>, ordered by the child \<^verbatim>\<open>timestamp\<close>, limited to
  the last 10. In every run against a service that honours the limit of this query, at
  most 10 record lines are printed.
\<close>

theorem one_query_at_most_ten_lines:
  "(env_init env = None \<and> env_reference env ''transactions'' = None \<longrightarrow>
      calls (script env) =
        [InitializeApp database_url, Reference ''transactions'',
         Get \<lparr>path = ''transactions'', order_by = Some ''timestamp'',
              limit_last = Some 10\<rparr>]) \<and>
   (honours_limit (env_get env) the_query \<longrightarrow>
      length (record_lines (stdout (script env))) \<le> 10)"
  using script_calls_success [of env] record_lines_script [of env]
  by (simp add: the_query_eq)

lemma script_env_ok:
  "stdout (script env_ok) =
     [''Last 10 transactions:'', ''- 2024-01-03: Rent (-950 EUR)'',
      ''- 2024-01-02: Salary (2500 EUR)'', ''- 2024-01-01: Coffee (None EUR)'']"
proof -
  have "env_get env_ok the_query = Inr (Some three_records)"
    by (simp add: env_ok_def limiting_service_def the_query_eq three_records_def)
  then have "stdout (script env_ok) = fst (presenter (Some three_records) [])"
    by (simp add: script_stdout_success env_ok_def)
  then show ?thesis by (simp add: three_records_output)
qed

theorem one_query_at_most_ten_lines_witness:
  "env_init env_ok = None \<and> env_reference env_ok ''transactions'' = None \<and>
   honours_limit (env_get env_ok) the_query \<and>
   calls (script env_ok) =
     [InitializeApp database_url, Reference ''transactions'',
      Get \<lparr>path = ''transactions'', order_by = Some ''timestamp'', limit_last = Some 10\<rparr>] \<and>
   length (record_lines (stdout (script env_ok))) \<le> 10 \<and>
   length (record_lines (stdout (script env_ok))) = 3"
proof -
  have h1: "env_init env_ok = None" and h2: "env_reference env_ok ''transactions'' = None"
    by (simp_all add: env_ok_def)
  have h3: "honours_limit (env_get env_ok) the_query"
    by (simp add: honours_limit_def env_ok_def limiting_service_def the_query_eq
          three_records_def)
  have n: "length (record_lines (stdout (script env_ok))) = 3"
    by (simp add: script_env_ok record_lines_def)
  from one_query_at_most_ten_lines [of env_ok] h1 h2 h3 n show ?thesis by simp
qed

end
